theory Spec2Isabelle
  imports
    Complex_Main
    "HOL-Library.Char_ord"
    "HOL-Library.List_Lexorder"
    "HOL-Library.Sublist"
    "HOL-Library.AList"
    "HOL-Library.Multiset"
begin

section \<open>Python values shared by the services\<close>

text \<open>
  Exceptions of the services, as values.  \<open>ValueError\<close> is what
  \<^verbatim>\<open>calculate_derived_metric\<close> raises and what \<^verbatim>\<open>datetime.replace\<close> raises for a
  year outside 1..9999; \<open>OverflowError\<close> is what it raises for a year that does not fit
  a C int; \<open>KeyError\<close> is the missing \<^verbatim>\<open>impact_on_np\<close> column of an empty frame;
  \<open>TypeError\<close> is \<^verbatim>\<open>len\<close> of a null (NaN) account name.
\<close>

datatype error =
    ValueError string
  | KeyError string
  | TypeError string
  | OverflowError string

text \<open>The Python class name of an exception.\<close>

fun error_type_name :: "error \<Rightarrow> string" where
  "error_type_name (ValueError m) = ''ValueError''"
| "error_type_name (KeyError m) = ''KeyError''"
| "error_type_name (TypeError m) = ''TypeError''"
| "error_type_name (OverflowError m) = ''OverflowError''"

text \<open>
  A Python float: a finite number (modelled as a real, so the rounding and overflow of
  IEEE doubles are outside the model), an infinity or NaN.
\<close>

datatype pyfloat = Fin real | PInf | NInf | NaN

text \<open>
  \<^verbatim>\<open>round(x, n)\<close> on a float rounds to the nearest multiple of \<open>10 ^ -n\<close>, an exact tie
  going to the even neighbour.
\<close>

definition round_half_even :: "real \<Rightarrow> int" where
  "round_half_even x =
     (let f = \<lfloor>x\<rfloor>; d = x - of_int f
      in if d < 1 / 2 then f
         else if 1 / 2 < d then f + 1
         else if even f then f else f + 1)"

definition py_round :: "real \<Rightarrow> nat \<Rightarrow> real" where
  "py_round x n = of_int (round_half_even (x * 10 ^ n)) / 10 ^ n"

text \<open>\<^verbatim>\<open>int(x)\<close> on a float truncates towards zero.\<close>

definition py_int :: "real \<Rightarrow> int" where
  "py_int x = (if 0 \<le> x then \<lfloor>x\<rfloor> else \<lceil>x\<rceil>)"

text \<open>\<^verbatim>\<open>np.mean\<close> of a non-empty list.\<close>

definition mean :: "real list \<Rightarrow> real" where
  "mean xs = sum_list xs / of_nat (length xs)"

text \<open>
  A Python \<^verbatim>\<open>dict\<close> keeps its keys in insertion order, and storing under a key that
  is already present keeps the key's position: an association list updated with
  \<^const>\<open>AList.update\<close>.  \<^verbatim>\<open>dict(zip(ks, vs))\<close> stores the pairs from left to right.
\<close>

type_synonym ('k, 'v) dict = "('k \<times> 'v) list"

definition dict_of :: "('k \<times> 'v) list \<Rightarrow> ('k, 'v) dict" where
  "dict_of kvs = fold (\<lambda>(k, v) d. AList.update k v d) kvs []"

definition dict_values :: "('k, 'v) dict \<Rightarrow> 'v list" where
  "dict_values d = map snd d"

section \<open>Dates: \<^verbatim>\<open>today + relativedelta(months=k)\<close>\<close>

record date =
  year :: int
  month :: int
  day :: int

definition isleap :: "int \<Rightarrow> bool" where
  "isleap y = (y mod 4 = 0 \<and> (y mod 100 \<noteq> 0 \<or> y mod 400 = 0))"

definition days_in_month :: "int \<Rightarrow> int \<Rightarrow> int" where
  "days_in_month y m =
     (if m = 2 then (if isleap y then 29 else 28)
      else if m = 4 \<or> m = 6 \<or> m = 9 \<or> m = 11 then 30 else 31)"

text \<open>
  \<^verbatim>\<open>relativedelta(months=k)\<close> normalises \<open>k\<close> into whole years and a remainder of the
  same sign; adding it to a date moves the year and month, clamps the day to the length
  of the target month and then calls \<^verbatim>\<open>replace\<close>, which raises when the year is out of
  range.
\<close>

definition add_months :: "date \<Rightarrow> int \<Rightarrow> error + date" where
  "add_months dt k =
     (let s = (if k < 0 then - 1 else 1);
          years = ((k * s) div 12) * s;
          months = ((k * s) mod 12) * s;
          year0 = year dt + years;
          month0 = month dt + months;
          year1 = (if months \<noteq> 0 \<and> 12 < month0 then year0 + 1
                   else if months \<noteq> 0 \<and> month0 < 1 then year0 - 1 else year0);
          month1 = (if months \<noteq> 0 \<and> 12 < month0 then month0 - 12
                    else if months \<noteq> 0 \<and> month0 < 1 then month0 + 12 else month0);
          day1 = min (days_in_month year1 month1) (day dt)
      in if year1 < - (2 ^ 31) \<or> 2 ^ 31 \<le> year1
           then Inl (OverflowError ''signed integer is out of range'')
         else if year1 < 1 \<or> 9999 < year1
           then Inl (ValueError ''year is out of range'')
         else Inr \<lparr>year = year1, month = month1, day = day1\<rparr>)"

section \<open>Startup metrics: runway\<close>

text \<open>
  The runway record of \<^verbatim>\<open>_calculate_runway\<close>.  \<open>zero_cash_date\<close> is the date that the
  source renders with \<^verbatim>\<open>strftime('%Y-%m-%d')\<close>; \<open>None\<close> is Python's \<^verbatim>\<open>None\<close>.
\<close>

record runway =
  months_remaining :: pyfloat
  zero_cash_date :: "date option"
  status :: string
  urgency :: string
  cash_balance :: real

text \<open>
  \<^verbatim>\<open>_calculate_runway\<close>.  The source reads the clock (\<^verbatim>\<open>datetime.now()\<close>); the model
  takes the date it reads as the parameter \<open>today\<close>.
\<close>

definition calculate_runway :: "date \<Rightarrow> real \<Rightarrow> real \<Rightarrow> error + runway" where
  "calculate_runway today cash avg_net_burn =
     (if avg_net_burn \<le> 0 then
        Inr \<lparr>months_remaining = PInf, zero_cash_date = None,
             status = ''profitable'', urgency = ''none'', cash_balance = cash\<rparr>
      else
        (let months = cash / avg_net_burn in
         case add_months today (py_int months) of
           Inl e \<Rightarrow> Inl e
         | Inr zero_date \<Rightarrow>
             Inr \<lparr>months_remaining = Fin (py_round months 1),
                  zero_cash_date = Some zero_date,
                  status = (if months < 6 then ''critical''
                            else if months < 12 then ''concerning''
                            else if months < 18 then ''comfortable'' else ''strong''),
                  urgency = (if months < 6 then ''high''
                             else if months < 12 then ''medium''
                             else if months < 18 then ''low'' else ''none''),
                  cash_balance = cash\<rparr>))"

section \<open>Text\<close>

text \<open>
  Text is a list of 8-bit characters.  \<^verbatim>\<open>str.lower\<close> is modelled on the ASCII letters,
  which is all the keyword tables mention; \<^verbatim>\<open>kw in s\<close> is the contiguous-substring test
  \<^const>\<open>sublist\<close>.
\<close>

definition lower_char :: "char \<Rightarrow> char" where
  "lower_char c =
     (if CHR ''A'' \<le> c \<and> c \<le> CHR ''Z'' then char_of (of_char c + (32::nat)) else c)"

definition lower :: "string \<Rightarrow> string" where
  "lower s = map lower_char s"

section \<open>Frames\<close>

text \<open>
  A row of the parsed frame: the account cell (\<open>None\<close> is a null cell, NaN), the numeric
  cells by column name, and the row type that \<^verbatim>\<open>parse_file\<close> adds.  A column without
  an entry in \<open>cells\<close> holds a null; every column named by a caller is taken to exist in
  the frame.
\<close>

record row =
  account :: "string option"
  cells :: "(string \<times> real) list"
  row_type :: string

definition cell :: "'a row_scheme \<Rightarrow> string \<Rightarrow> real option" where
  "cell r col = map_of (cells r) col"

text \<open>\<^verbatim>\<open>str(row[account_column])\<close>: the text of a null cell is \<^verbatim>\<open>nan\<close>.\<close>

definition account_str :: "'a row_scheme \<Rightarrow> string" where
  "account_str r = (case account r of None \<Rightarrow> ''nan'' | Some s \<Rightarrow> s)"

section \<open>Startup metrics: aggregates\<close>

record calculator =
  df :: "row list"
  value_columns :: "string list"

definition revenue_keywords :: "string list" where
  "revenue_keywords =
     [''revenue'', ''sales'', ''income'', ''subscription'', ''recurring'',
      ''arr'', ''mrr'', ''services revenue'']"

definition exclude_keywords :: "string list" where
  "exclude_keywords = [''expense'', ''cost'', ''cogs'']"

definition expense_keywords :: "string list" where
  "expense_keywords =
     [''expense'', ''cost'', ''salaries'', ''wages'', ''payroll'', ''marketing'',
      ''advertising'', ''rent'', ''software'', ''consulting'', ''fees'',
      ''depreciation'', ''amortization'', ''interest'', ''tax'', ''utilities'',
      ''travel'', ''insurance'', ''benefits'', ''hosting'', ''cloud'', ''aws'',
      ''engineering'', ''r&d'', ''research'', ''development'']"

definition is_revenue_account :: "string \<Rightarrow> bool" where
  "is_revenue_account acct =
     (let account_lower = lower acct;
          has_revenue = list_ex (\<lambda>kw. sublist kw account_lower) revenue_keywords;
          has_exclude = list_ex (\<lambda>kw. sublist kw account_lower) exclude_keywords
      in has_revenue \<and> \<not> has_exclude)"

definition is_expense_account :: "string \<Rightarrow> bool" where
  "is_expense_account acct =
     (let account_lower = lower acct
      in list_ex (\<lambda>kw. sublist kw account_lower) expense_keywords)"

record aggregates =
  revenue_by_period :: "(string, real) dict"
  expenses_by_period :: "(string, real) dict"
  net_income_by_period :: "(string, real) dict"
  periods :: "string list"

text \<open>
  The body of the inner loop of \<^verbatim>\<open>_calculate_aggregates\<close>, on the running pair
  (revenue, expenses): a null cell is skipped, and the \<^verbatim>\<open>if\<close>/\<^verbatim>\<open>elif\<close> puts a value
  into one sum at most.
\<close>

definition row_step :: "string \<Rightarrow> row \<Rightarrow> real \<times> real \<Rightarrow> real \<times> real" where
  "row_step period r acc =
     (case acc of (revenue, expenses) \<Rightarrow>
        (let acct = lower (account_str r) in
         case cell r period of
           None \<Rightarrow> (revenue, expenses)
         | Some v \<Rightarrow>
             if is_revenue_account acct then (revenue + \<bar>v\<bar>, expenses)
             else if is_expense_account acct then (revenue, expenses + \<bar>v\<bar>)
             else (revenue, expenses)))"

text \<open>The body of the outer loop: one period column.\<close>

definition period_step :: "row list \<Rightarrow> string \<Rightarrow> aggregates \<Rightarrow> aggregates" where
  "period_step rows period agg =
     (case fold (row_step period) rows (0, 0) of (revenue, expenses) \<Rightarrow>
        agg\<lparr>revenue_by_period := AList.update period revenue (revenue_by_period agg),
            expenses_by_period := AList.update period expenses (expenses_by_period agg),
            net_income_by_period :=
              AList.update period (revenue - expenses) (net_income_by_period agg)\<rparr>)"

text \<open>\<^verbatim>\<open>_calculate_aggregates\<close>; \<open>None\<close> is the empty dict returned without value columns.\<close>

definition calculate_aggregates :: "calculator \<Rightarrow> aggregates option" where
  "calculate_aggregates c =
     (if value_columns c = [] then None
      else Some (fold (period_step (df c)) (value_columns c)
                   \<lparr>revenue_by_period = [], expenses_by_period = [],
                    net_income_by_period = [], periods = sort (value_columns c)\<rparr>))"

section \<open>Startup metrics: burn rate\<close>

record burn =
  gross_burn_by_period :: "(string, real) dict"
  gross_burn_avg :: real
  gross_burn_latest :: real
  net_burn_by_period :: "(string, real) dict"
  net_burn_avg :: real
  net_burn_latest :: real
  burn_rate_trend :: real
  burn_rate_trend_direction :: string

text \<open>
  \<^verbatim>\<open>_calculate_burn_rate\<close>; \<open>None\<close> is the empty dict.  The two value lists come from
  dicts filled under the same keys, so \<^verbatim>\<open>expenses[i] - revenues[i]\<close> over
  \<^verbatim>\<open>range(len(expenses))\<close> is the pairwise difference.  \<^verbatim>\<open>xs[-3:]\<close> and \<^verbatim>\<open>xs[:-3]\<close>
  are the last three entries and the ones before them.
\<close>

definition calculate_burn_rate :: "aggregates option \<Rightarrow> burn option" where
  "calculate_burn_rate aggs =
     (case aggs of
        None \<Rightarrow> None
      | Some a \<Rightarrow>
          (let expenses = dict_values (expenses_by_period a);
               revenues = dict_values (revenue_by_period a)
           in if expenses = [] then None
              else
                (let net_burns = map (\<lambda>(e, r). e - r) (zip expenses revenues);
                     n = length net_burns;
                     recent_avg = mean (drop (n - 3) net_burns);
                     earlier_avg = (if 3 < n then mean (take (n - 3) net_burns)
                                    else hd net_burns)
                 in Some
                   \<lparr>gross_burn_by_period = expenses_by_period a,
                    gross_burn_avg = mean expenses,
                    gross_burn_latest = last expenses,
                    net_burn_by_period = dict_of (zip (periods a) net_burns),
                    net_burn_avg = mean net_burns,
                    net_burn_latest = last net_burns,
                    burn_rate_trend =
                      (if 3 \<le> n
                       then (if earlier_avg \<noteq> 0
                             then ((recent_avg - earlier_avg) / \<bar>earlier_avg\<bar>) * 100
                             else 0)
                       else 0),
                    burn_rate_trend_direction =
                      (if 3 \<le> n
                       then (if earlier_avg < recent_avg then ''increasing''
                             else ''decreasing'')
                       else ''stable'')\<rparr>)))"

section \<open>Startup metrics: growth\<close>

record growth =
  mom_growth_by_period :: "(string, real) dict"
  mom_growth_avg :: real
  mom_growth_latest :: real
  overall_growth :: real
  cmgr :: real
  growth_trend :: string

text \<open>One month-over-month step, from the previous revenue to the current one.\<close>

definition mom_step :: "real \<times> real \<Rightarrow> real" where
  "mom_step pc =
     (case pc of (prev, cur) \<Rightarrow>
        if prev \<noteq> 0 then ((cur - prev) / \<bar>prev\<bar>) * 100 else 0)"

text \<open>\<^verbatim>\<open>_calculate_growth_metrics\<close>; \<open>None\<close> is the empty dict of fewer than two periods.\<close>

definition calculate_growth_metrics :: "aggregates option \<Rightarrow> growth option" where
  "calculate_growth_metrics aggs =
     (let revenues = (case aggs of None \<Rightarrow> [] | Some a \<Rightarrow> dict_values (revenue_by_period a));
          pers = (case aggs of None \<Rightarrow> [] | Some a \<Rightarrow> periods a)
      in if length revenues < 2 then None
         else
           (let mom_growth = map mom_step (zip revenues (tl revenues));
                avg = mean mom_growth
            in Some
              \<lparr>mom_growth_by_period = dict_of (zip (tl pers) mom_growth),
               mom_growth_avg = avg,
               mom_growth_latest = last mom_growth,
               overall_growth =
                 (if hd revenues \<noteq> 0
                  then ((last revenues - hd revenues) / \<bar>hd revenues\<bar>) * 100 else 0),
               cmgr =
                 (if 3 \<le> length revenues \<and> 0 < hd revenues
                  then (((last revenues / hd revenues)
                           powr (1 / of_nat (length revenues - 1))) - 1) * 100
                  else 0),
               growth_trend =
                 (if 3 \<le> length mom_growth
                  then (if avg < mean (drop (length mom_growth - 3) mom_growth)
                        then ''accelerating'' else ''decelerating'')
                  else ''stable'')\<rparr>))"

section \<open>Startup metrics: expense drivers\<close>

record expense_entry =
  entry_account :: string
  latest_amount :: real
  previous_amount :: real
  change_dollar :: real
  change_percent :: real

record drivers =
  top_expenses :: "expense_entry list"
  fastest_growing :: "expense_entry list"
  largest_increases :: "expense_entry list"

text \<open>
  The entry that the loop of \<^verbatim>\<open>_identify_expense_drivers\<close> appends for one expense row:
  a null cell of either period is replaced by 0 before the absolute value is taken.
\<close>

definition expense_entry_of :: "string \<Rightarrow> string \<Rightarrow> row \<Rightarrow> expense_entry" where
  "expense_entry_of latest_period prev_period r =
     (let latest_val = \<bar>case cell r latest_period of None \<Rightarrow> 0 | Some v \<Rightarrow> v\<bar>;
          prev_val = \<bar>case cell r prev_period of None \<Rightarrow> 0 | Some v \<Rightarrow> v\<bar>;
          change = latest_val - prev_val
      in \<lparr>entry_account = account_str r,
          latest_amount = latest_val,
          previous_amount = prev_val,
          change_dollar = change,
          change_percent = (if prev_val \<noteq> 0 then change / prev_val * 100 else 0)\<rparr>)"

text \<open>The list \<^verbatim>\<open>expense_data\<close>: one entry per row whose name passes the expense test.\<close>

definition expense_data :: "calculator \<Rightarrow> expense_entry list" where
  "expense_data c =
     (let latest_period = last (value_columns c);
          prev_period = last (butlast (value_columns c))
      in map (expense_entry_of latest_period prev_period)
           (filter (\<lambda>r. is_expense_account (lower (account_str r))) (df c)))"

text \<open>
  \<^verbatim>\<open>sorted(xs, key=k, reverse=True)[:5]\<close>: a stable sort by descending key, then the
  first five.
\<close>

definition top5_by :: "(expense_entry \<Rightarrow> real) \<Rightarrow> expense_entry list \<Rightarrow> expense_entry list" where
  "top5_by k xs = take 5 (sort_key (\<lambda>e. - k e) xs)"

definition identify_expense_drivers :: "calculator \<Rightarrow> drivers" where
  "identify_expense_drivers c =
     (if length (value_columns c) < 2
      then \<lparr>top_expenses = [], fastest_growing = [], largest_increases = []\<rparr>
      else
        (let data = expense_data c
         in \<lparr>top_expenses = top5_by latest_amount data,
             fastest_growing = top5_by change_percent (filter (\<lambda>e. 5 < change_percent e) data),
             largest_increases = top5_by change_dollar (filter (\<lambda>e. 0 < change_dollar e) data)\<rparr>))"

section \<open>Startup metrics: cash efficiency\<close>

text \<open>
  In \<open>burn_multiple\<close>, \<open>None\<close> is a missing key, \<open>Some None\<close> the value \<^verbatim>\<open>None\<close>.
\<close>

record efficiency =
  burn_multiple :: "real option option"
  revenue_per_dollar_spent :: real
  efficiency_rating :: string

definition calculate_cash_efficiency :: "aggregates \<Rightarrow> burn option \<Rightarrow> efficiency" where
  "calculate_cash_efficiency a b =
     (let latest_revenue =
            (if revenue_by_period a \<noteq> [] then last (dict_values (revenue_by_period a)) else 0);
          avg_burn = (case b of None \<Rightarrow> 0 | Some bm \<Rightarrow> net_burn_avg bm);
          arr = latest_revenue * 12;
          bmult = (if 0 < avg_burn
                   then (if 0 < arr then Some (Some (py_round ((avg_burn * 12) / arr) 2))
                         else Some None)
                   else None);
          latest_expenses =
            (if expenses_by_period a \<noteq> [] then last (dict_values (expenses_by_period a)) else 0)
      in \<lparr>burn_multiple = bmult,
          revenue_per_dollar_spent =
            (if 0 < latest_expenses then py_round (latest_revenue / latest_expenses) 2 else 0),
          efficiency_rating =
            (case bmult of
               Some (Some m) \<Rightarrow>
                 (if m = 0 then ''unknown''
                  else if m < 15 / 10 then ''excellent''
                  else if m < 25 / 10 then ''good''
                  else if m < 4 then ''average'' else ''poor'')
             | _ \<Rightarrow> ''unknown'')\<rparr>)"

section \<open>Startup metrics: insights\<close>

text \<open>
  The message of an insight is an f-string; the model keeps which template it is and
  the number that is formatted into it.
\<close>

datatype message =
    RunwayCritical pyfloat
  | RunwayPrepare pyfloat
  | RunwayStrong pyfloat
  | BurnIncreasing real
  | GrowthStrong real
  | GrowthDeclined real
  | EfficiencyExcellent "real option option"
  | EfficiencyPoor "real option option"

record insight =
  insight_type :: string
  insight_category :: string
  insight_message :: message
  priority :: string

text \<open>Comparisons of a float with a number; every comparison with NaN is false.\<close>

fun pf_less :: "pyfloat \<Rightarrow> real \<Rightarrow> bool" where
  "pf_less (Fin x) c = (x < c)"
| "pf_less NInf c = True"
| "pf_less PInf c = False"
| "pf_less NaN c = False"

fun pf_ge :: "pyfloat \<Rightarrow> real \<Rightarrow> bool" where
  "pf_ge (Fin x) c = (c \<le> x)"
| "pf_ge PInf c = True"
| "pf_ge NInf c = False"
| "pf_ge NaN c = False"

text \<open>Truth value of a float: everything but zero.\<close>

fun pf_truthy :: "pyfloat \<Rightarrow> bool" where
  "pf_truthy (Fin x) = (x \<noteq> 0)"
| "pf_truthy f = True"

definition runway_insights :: "runway option \<Rightarrow> insight list" where
  "runway_insights rw =
     (case rw of
        None \<Rightarrow> []
      | Some r \<Rightarrow>
          (let months = months_remaining r in
           if \<not> pf_truthy months then []
           else if pf_less months 6 then
             [\<lparr>insight_type = ''warning'', insight_category = ''runway'',
               insight_message = RunwayCritical months, priority = ''high''\<rparr>]
           else if pf_less months 12 then
             [\<lparr>insight_type = ''caution'', insight_category = ''runway'',
               insight_message = RunwayPrepare months, priority = ''medium''\<rparr>]
           else if pf_ge months 18 then
             [\<lparr>insight_type = ''positive'', insight_category = ''runway'',
               insight_message = RunwayStrong months, priority = ''low''\<rparr>]
           else []))"

definition burn_insights :: "burn option \<Rightarrow> insight list" where
  "burn_insights bo =
     (case bo of
        None \<Rightarrow> []
      | Some b \<Rightarrow>
          (if burn_rate_trend_direction b = ''increasing'' then
             [\<lparr>insight_type = ''warning'', insight_category = ''burn'',
               insight_message = BurnIncreasing \<bar>burn_rate_trend b\<bar>, priority = ''high''\<rparr>]
           else []))"

definition growth_insights :: "growth option \<Rightarrow> insight list" where
  "growth_insights go =
     (let latest = (case go of None \<Rightarrow> 0 | Some g \<Rightarrow> mom_growth_latest g) in
      if 10 < latest then
        [\<lparr>insight_type = ''positive'', insight_category = ''growth'',
          insight_message = GrowthStrong latest, priority = ''medium''\<rparr>]
      else if latest < 0 then
        [\<lparr>insight_type = ''warning'', insight_category = ''growth'',
          insight_message = GrowthDeclined \<bar>latest\<bar>, priority = ''high''\<rparr>]
      else [])"

definition efficiency_insights :: "efficiency option \<Rightarrow> insight list" where
  "efficiency_insights eo =
     (case eo of
        None \<Rightarrow> []
      | Some e \<Rightarrow>
          (if efficiency_rating e = ''excellent'' then
             [\<lparr>insight_type = ''positive'', insight_category = ''efficiency'',
               insight_message = EfficiencyExcellent (burn_multiple e), priority = ''low''\<rparr>]
           else if efficiency_rating e = ''poor'' then
             [\<lparr>insight_type = ''caution'', insight_category = ''efficiency'',
               insight_message = EfficiencyPoor (burn_multiple e), priority = ''medium''\<rparr>]
           else []))"

definition priority_order :: "string \<Rightarrow> nat" where
  "priority_order p =
     (if p = ''high'' then 0 else if p = ''medium'' then 1 else if p = ''low'' then 2 else 3)"

text \<open>\<^verbatim>\<open>_generate_key_insights\<close>: the four groups in order, then a stable sort by priority.\<close>

definition generate_key_insights ::
  "runway option \<Rightarrow> burn option \<Rightarrow> growth option \<Rightarrow> efficiency option \<Rightarrow> insight list" where
  "generate_key_insights rw b g e =
     sort_key (\<lambda>i. priority_order (priority i))
       (runway_insights rw @ burn_insights b @ growth_insights g @ efficiency_insights e)"

section \<open>Startup metrics: the pipeline\<close>

record metrics =
  aggregates :: "aggregates option"
  burn_rate :: "burn option"
  runway :: "runway option"
  growth :: "growth option"
  expense_drivers :: drivers
  efficiency :: "efficiency option"
  insights :: "insight list"

text \<open>
  \<^verbatim>\<open>calculate_all_metrics\<close>, with the clock's date as \<open>today\<close>.  The runway is computed
  when a cash balance is given and the average net burn is present and not zero.
\<close>

definition calculate_all_metrics :: "date \<Rightarrow> calculator \<Rightarrow> real option \<Rightarrow> error + metrics" where
  "calculate_all_metrics today c cash =
     (let aggs = calculate_aggregates c;
          b = calculate_burn_rate aggs;
          rw = (case (cash, b) of
                  (Some cb, Some bm) \<Rightarrow>
                    (if net_burn_avg bm \<noteq> 0
                     then map_sum id Some (calculate_runway today cb (net_burn_avg bm))
                     else Inr None)
                | _ \<Rightarrow> Inr None)
      in case rw of
           Inl err \<Rightarrow> Inl err
         | Inr rwo \<Rightarrow>
             (let g = calculate_growth_metrics aggs;
                  d = identify_expense_drivers c;
                  e = (case aggs of
                         None \<Rightarrow> None
                       | Some a \<Rightarrow>
                           (if revenue_by_period a \<noteq> []
                            then Some (calculate_cash_efficiency a b) else None))
              in Inr \<lparr>aggregates = aggs, burn_rate = b, runway = rwo, growth = g,
                      expense_drivers = d, efficiency = e,
                      insights = generate_key_insights rwo b g e\<rparr>))"

section \<open>Waterfall calculator\<close>

text \<open>
  A row of the frame that \<^verbatim>\<open>batch_categorize_dataframe\<close> returns: the parsed row with the
  mapping columns.  The frame is a list of such rows; a row's index label is its position
  (the parser resets the index and the mapper keeps it).
\<close>

record mapped_row = row +
  category :: string
  subcategory :: string
  is_subtotal_mapped :: bool
  mapping_confidence :: real
  mapping_method :: string
  needs_review :: bool

definition indexed :: "'a list \<Rightarrow> (nat \<times> 'a) list" where
  "indexed rows = zip [0..<length rows] rows"

text \<open>\<^verbatim>\<open>df[cols].sum(axis=1)\<close> for one row: the sum of the listed cells, nulls skipped.\<close>

definition period_sum :: "'a row_scheme \<Rightarrow> string list \<Rightarrow> real" where
  "period_sum r cols = sum_list (map (\<lambda>c. case cell r c of None \<Rightarrow> 0 | Some v \<Rightarrow> v) cols)"

text \<open>
  A row of a filtered frame with the columns the calculator adds: the two period totals,
  the movement, and the column that is ranked and shown (\<open>impact\<close>: the movement times
  the sign of the row's category in the metric).
\<close>

record driver =
  driver_index :: nat
  driver_account :: "string option"
  period1_total :: real
  period2_total :: real
  movement :: real
  impact :: real

definition driver_of :: "real \<Rightarrow> string list \<Rightarrow> string list \<Rightarrow> nat \<times> mapped_row \<Rightarrow> driver" where
  "driver_of sign period1_cols period2_cols ir =
     (case ir of (i, r) \<Rightarrow>
        (let t1 = period_sum r period1_cols; t2 = period_sum r period2_cols
         in \<lparr>driver_index = i, driver_account = account r,
             period1_total = t1, period2_total = t2,
             movement = t2 - t1, impact = (t2 - t1) * sign\<rparr>))"

text \<open>The rows of one category, with their totals: \<^verbatim>\<open>df[df[category_col] == cat]\<close>.\<close>

definition category_drivers ::
  "mapped_row list \<Rightarrow> string list \<Rightarrow> string list \<Rightarrow> string \<Rightarrow> real \<Rightarrow> driver list" where
  "category_drivers frame period1_cols period2_cols cat sign =
     map (driver_of sign period1_cols period2_cols)
       (filter (\<lambda>ir. category (snd ir) = cat) (indexed frame))"

text \<open>
  \<^verbatim>\<open>nlargest(n, col)\<close>: the first \<open>n\<close> rows in descending order of the column, rows with
  equal values in their original order.
\<close>

definition nlargest :: "nat \<Rightarrow> (driver \<Rightarrow> real) \<Rightarrow> driver list \<Rightarrow> driver list" where
  "nlargest n col xs = take n (sort_key (\<lambda>d. - col d) xs)"

text \<open>\<^verbatim>\<open>all[~all.index.isin(top_drivers.index)]\<close>: the rows whose index label is not a top driver's.\<close>

definition others_of :: "driver list \<Rightarrow> driver list \<Rightarrow> driver list" where
  "others_of all_drivers top_drivers =
     filter (\<lambda>d. driver_index d \<notin> set (map driver_index top_drivers)) all_drivers"

record bar =
  bar_category :: string
  bar_value :: real
  bar_color :: string
  bar_measure :: string

record waterfall =
  categories :: "string list"
  vals :: "real list"
  colors :: "string list"
  measures :: "string list"
  period1_value :: real
  period2_value :: real
  total_movement :: real
  total_movement_pct :: pyfloat
  y_min :: real
  top_drivers_count :: nat
  other_movement :: real

text \<open>
  The label of a driver bar.  \<^verbatim>\<open>len\<close> of a null account name (a float NaN) raises.
\<close>

definition display_name :: "string option \<Rightarrow> error + string" where
  "display_name a =
     (case a of
        None \<Rightarrow> Inl (TypeError ''object of type float has no len()'')
      | Some s \<Rightarrow> Inr (if 30 < length s then take 30 s @ ''...'' else s))"

definition relative_color :: "real \<Rightarrow> string" where
  "relative_color v = (if 0 < v then ''#10b981'' else ''#ef4444'')"

text \<open>The loop over the top drivers: one relative bar each, in order.\<close>

fun driver_bars :: "driver list \<Rightarrow> error + bar list" where
  "driver_bars [] = Inr []"
| "driver_bars (d # ds) =
     (case display_name (driver_account d) of
        Inl e \<Rightarrow> Inl e
      | Inr nm \<Rightarrow>
          (case driver_bars ds of
             Inl e \<Rightarrow> Inl e
           | Inr bs \<Rightarrow>
               Inr (\<lparr>bar_category = nm, bar_value = impact d,
                     bar_color = relative_color (impact d),
                     bar_measure = ''relative''\<rparr> # bs)))"

text \<open>
  Division of two finite \<^verbatim>\<open>float64\<close> values: a zero divisor gives an infinity or NaN
  instead of raising.
\<close>

definition np_div :: "real \<Rightarrow> real \<Rightarrow> pyfloat" where
  "np_div x y =
     (if y = 0 then (if x = 0 then NaN else if 0 < x then PInf else NInf)
      else Fin (x / y))"

text \<open>
  \<^verbatim>\<open>round((total_movement / period1_value * 100), 2) if period1_value != 0 else 0\<close>;
  an infinity or NaN would pass through the product and the rounding unchanged.
\<close>

definition movement_pct :: "real \<Rightarrow> real \<Rightarrow> pyfloat" where
  "movement_pct movement_total p1 =
     (if p1 \<noteq> 0
      then (case np_div movement_total p1 of Fin q \<Rightarrow> Fin (py_round (q * 100) 2) | f \<Rightarrow> f)
      else Fin 0)"

text \<open>
  The body shared by \<^verbatim>\<open>calculate_waterfall\<close> and \<^verbatim>\<open>_build_waterfall_structure\<close>, which
  differ in the labels of the first and last bar only: start bar, driver bars, the Other
  bar when its absolute value exceeds 0.01, end bar, and the summary fields.
\<close>

definition waterfall_of ::
  "string \<Rightarrow> string \<Rightarrow> real \<Rightarrow> real \<Rightarrow> driver list \<Rightarrow> real \<Rightarrow> error + waterfall" where
  "waterfall_of start_label end_label p1 p2 top_drivers other =
     (case driver_bars top_drivers of
        Inl e \<Rightarrow> Inl e
      | Inr bs \<Rightarrow>
          (let bars =
                 [\<lparr>bar_category = start_label, bar_value = p1,
                   bar_color = ''#3b82f6'', bar_measure = ''absolute''\<rparr>]
                 @ bs
                 @ (if 1 / 100 < \<bar>other\<bar>
                    then [\<lparr>bar_category = ''Other'', bar_value = other,
                           bar_color = relative_color other, bar_measure = ''relative''\<rparr>]
                    else [])
                 @ [\<lparr>bar_category = end_label, bar_value = p2,
                     bar_color = ''#3b82f6'', bar_measure = ''total''\<rparr>];
               movement_total = p2 - p1;
               ymin = (if 0 < p1 then p1 * (8 / 10) else p1 * (12 / 10))
           in Inr \<lparr>categories = map bar_category bars,
                   vals = map bar_value bars,
                   colors = map bar_color bars,
                   measures = map bar_measure bars,
                   period1_value = py_round p1 2,
                   period2_value = py_round p2 2,
                   total_movement = py_round movement_total 2,
                   total_movement_pct = movement_pct movement_total p1,
                   y_min = py_round ymin 2,
                   top_drivers_count = length top_drivers,
                   other_movement = py_round other 2\<rparr>))"

definition build_waterfall_structure ::
  "real \<Rightarrow> real \<Rightarrow> driver list \<Rightarrow> real \<Rightarrow> string \<Rightarrow> error + waterfall" where
  "build_waterfall_structure p1 p2 top_drivers other metric_name =
     waterfall_of (metric_name @ [CHR 0x0A] @ ''Period 1'')
       (metric_name @ [CHR 0x0A] @ ''Period 2'') p1 p2 top_drivers other"


definition calculate_gross_profit_waterfall ::
  "mapped_row list \<Rightarrow> string list \<Rightarrow> string list \<Rightarrow> nat \<Rightarrow> error + waterfall" where
  "calculate_gross_profit_waterfall frame period1_cols period2_cols top_n =
     (let revenue_df = category_drivers frame period1_cols period2_cols ''Revenue'' 1;
          cogs_df = category_drivers frame period1_cols period2_cols ''Cost of Goods Sold'' (- 1);
          period1_gp = sum_list (map period1_total revenue_df)
                       - sum_list (map period1_total cogs_df);
          period2_gp = sum_list (map period2_total revenue_df)
                       - sum_list (map period2_total cogs_df);
          all_drivers = revenue_df @ cogs_df;
          top_drivers = nlargest top_n (\<lambda>d. \<bar>impact d\<bar>) all_drivers;
          other = sum_list (map impact (others_of all_drivers top_drivers))
      in build_waterfall_structure period1_gp period2_gp top_drivers other ''Gross Profit'')"

definition calculate_operating_profit_waterfall ::
  "mapped_row list \<Rightarrow> string list \<Rightarrow> string list \<Rightarrow> nat \<Rightarrow> error + waterfall" where
  "calculate_operating_profit_waterfall frame period1_cols period2_cols top_n =
     (let revenue_df = category_drivers frame period1_cols period2_cols ''Revenue'' 1;
          cogs_df = category_drivers frame period1_cols period2_cols ''Cost of Goods Sold'' (- 1);
          opex_df = category_drivers frame period1_cols period2_cols ''Operating Expenses'' (- 1);
          period1_op = sum_list (map period1_total revenue_df)
                       - sum_list (map period1_total cogs_df)
                       - sum_list (map period1_total opex_df);
          period2_op = sum_list (map period2_total revenue_df)
                       - sum_list (map period2_total cogs_df)
                       - sum_list (map period2_total opex_df);
          all_drivers = revenue_df @ cogs_df @ opex_df;
          top_drivers = nlargest top_n (\<lambda>d. \<bar>impact d\<bar>) all_drivers;
          other = sum_list (map impact (others_of all_drivers top_drivers))
      in build_waterfall_structure period1_op period2_op top_drivers other ''Operating Profit'')"

text \<open>The categories of net profit with their signs, in the order of the source.\<close>

definition net_profit_signs :: "(string \<times> real) list" where
  "net_profit_signs =
     [(''Revenue'', 1), (''Cost of Goods Sold'', - 1), (''Operating Expenses'', - 1),
      (''Financial Items'', 1), (''Non-Operating Items'', 1), (''Tax'', - 1)]"

text \<open>
  \<^verbatim>\<open>_calculate_net_profit_waterfall\<close>: only the categories that have rows are given their
  totals and joined; when none has, the joined frame has no \<^verbatim>\<open>impact_on_np\<close> column and
  reading it raises.
\<close>

definition calculate_net_profit_waterfall ::
  "mapped_row list \<Rightarrow> string list \<Rightarrow> string list \<Rightarrow> nat \<Rightarrow> error + waterfall" where
  "calculate_net_profit_waterfall frame period1_cols period2_cols top_n =
     (let groups = map (\<lambda>cs. (category_drivers frame period1_cols period2_cols (fst cs) (snd cs),
                               snd cs)) net_profit_signs;
          all_dfs = filter (\<lambda>g. 0 < length (fst g)) groups;
          all_drivers = concat (map fst all_dfs);
          period1_np = sum_list (map (\<lambda>g. sum_list (map period1_total (fst g)) * snd g) all_dfs);
          period2_np = sum_list (map (\<lambda>g. sum_list (map period2_total (fst g)) * snd g) all_dfs)
      in if all_dfs = [] then Inl (KeyError ''impact_on_np'')
         else
           (let top_drivers = nlargest top_n (\<lambda>d. \<bar>impact d\<bar>) all_drivers;
                other = sum_list (map impact (others_of all_drivers top_drivers))
            in build_waterfall_structure period1_np period2_np top_drivers other ''Net Profit''))"

definition calculate_derived_metric ::
  "mapped_row list \<Rightarrow> string \<Rightarrow> string list \<Rightarrow> string list \<Rightarrow> nat \<Rightarrow> error + waterfall" where
  "calculate_derived_metric frame metric period1_cols period2_cols top_n =
     (if metric = ''gross_profit''
        then calculate_gross_profit_waterfall frame period1_cols period2_cols top_n
      else if metric = ''operating_profit''
        then calculate_operating_profit_waterfall frame period1_cols period2_cols top_n
      else if metric = ''net_profit''
        then calculate_net_profit_waterfall frame period1_cols period2_cols top_n
      else Inl (ValueError (''Unknown derived metric: '' @ metric)))"


section \<open>Example frames\<close>

text \<open>A categorised line item with the given name, category and cells.\<close>

definition line_item :: "string \<Rightarrow> string \<Rightarrow> (string \<times> real) list \<Rightarrow> mapped_row" where
  "line_item name cat cs =
     \<lparr>account = Some name, cells = cs, row_type = ''line_item'',
      category = cat, subcategory = '''', is_subtotal_mapped = False,
      mapping_confidence = 1, mapping_method = ''fuzzy'', needs_review = False\<rparr>"

text \<open>
  The scenario of the specification: five contributing rows whose movements from
  2024-01 to 2024-02 are 50, -30, 10, -5 and 2.
\<close>

definition scenario_frame :: "mapped_row list" where
  "scenario_frame =
     [line_item ''Product A'' ''Revenue'' [(''2024-01'', 100), (''2024-02'', 150)],
      line_item ''Product B'' ''Revenue'' [(''2024-01'', 100), (''2024-02'', 70)],
      line_item ''Product C'' ''Revenue'' [(''2024-01'', 100), (''2024-02'', 110)],
      line_item ''Product D'' ''Revenue'' [(''2024-01'', 100), (''2024-02'', 95)],
      line_item ''Product E'' ''Revenue'' [(''2024-01'', 100), (''2024-02'', 102)]]"



text \<open>
  The error types that the specification names; the source defines none of them.
\<close>

definition spec_error_types :: "string list" where
  "spec_error_types = [''MalformedTableError'', ''InsufficientDataError'', ''UnknownMetricError'']"

section \<open>Example calculators\<close>

text \<open>A parsed line item with the given name and cells.\<close>

definition parsed_item :: "string \<Rightarrow> (string \<times> real) list \<Rightarrow> row" where
  "parsed_item name cs = \<lparr>account = Some name, cells = cs, row_type = ''line_item''\<rparr>"

text \<open>One row whose name passes both keyword tests.\<close>

definition interest_calculator :: calculator where
  "interest_calculator =
     \<lparr>df = [parsed_item ''Interest Income'' [(''2024-01'', 100)]],
      value_columns = [''2024-01'']\<rparr>"

text \<open>
  A statement whose period columns are headed by month names, in chronological order.
\<close>

definition month_name_calculator :: calculator where
  "month_name_calculator =
     \<lparr>df = [parsed_item ''Sales'' [(''Jan 2024'', 10), (''Feb 2024'', 50)],
            parsed_item ''Rent'' [(''Jan 2024'', 100), (''Feb 2024'', 200)]],
      value_columns = [''Jan 2024'', ''Feb 2024'']\<rparr>"


text \<open>
  The sum that the specification describes for a keyword test \<open>P\<close> and a period: the
  absolute values of the non-null cells of every row whose lower-cased name passes \<open>P\<close>.
\<close>

definition matching_total :: "(string \<Rightarrow> bool) \<Rightarrow> row list \<Rightarrow> string \<Rightarrow> real" where
  "matching_total P rows period =
     sum_list (map (\<lambda>r. case cell r period of None \<Rightarrow> 0 | Some v \<Rightarrow> \<bar>v\<bar>)
                 (filter (\<lambda>r. P (lower (account_str r))) rows))"

text \<open>A metrics result with the projected zero-cash date of its runway record blanked.\<close>

definition without_zero_cash_date :: "metrics \<Rightarrow> metrics" where
  "without_zero_cash_date m =
     m\<lparr>runway := map_option (\<lambda>r. r\<lparr>zero_cash_date := None\<rparr>) (runway m)\<rparr>"

section \<open>Account mapper\<close>




















section \<open>Numeric cleaning\<close>

text \<open>A raw cell: null, a number, or text.\<close>

datatype cell_value = Null | Number real | Text string

definition is_digit :: "char \<Rightarrow> bool" where
  "is_digit c = (CHR ''0'' \<le> c \<and> c \<le> CHR ''9'')"

definition digit_value :: "char \<Rightarrow> int" where
  "digit_value c = of_char c - 48"

text \<open>
  The grammar of \<^verbatim>\<open>float(str)\<close> on ASCII text: a digit part is digits with single
  underscores between them.
\<close>

fun digitpart :: "string \<Rightarrow> bool" where
  "digitpart [] = False"
| "digitpart [c] = is_digit c"
| "digitpart (c # d # cs) =
     (is_digit c \<and> (if d = CHR ''_'' then digitpart cs else digitpart (d # cs)))"

definition int_of_digits :: "string \<Rightarrow> int" where
  "int_of_digits s = foldl (\<lambda>n c. 10 * n + digit_value c) 0 (filter is_digit s)"

text \<open>The text before the first character that satisfies \<open>P\<close>, and the text after it.\<close>

definition split_at :: "(char \<Rightarrow> bool) \<Rightarrow> string \<Rightarrow> string \<times> string option" where
  "split_at P s =
     (case dropWhile (\<lambda>c. \<not> P c) s of
        [] \<Rightarrow> (s, None)
      | c # rest \<Rightarrow> (takeWhile (\<lambda>c. \<not> P c) s, Some rest))"

text \<open>A number: digit part, optional point, optional digit part, one of the two at least.\<close>

definition parse_number :: "string \<Rightarrow> real option" where
  "parse_number s =
     (case split_at (\<lambda>c. c = CHR ''.'') s of
        (ip, None) \<Rightarrow> (if digitpart ip then Some (of_int (int_of_digits ip)) else None)
      | (ip, Some fp) \<Rightarrow>
          (if fp = [] then (if digitpart ip then Some (of_int (int_of_digits ip)) else None)
           else if (ip = [] \<or> digitpart ip) \<and> digitpart fp
           then Some (of_int (int_of_digits ip)
                      + of_int (int_of_digits fp) / 10 ^ length (filter is_digit fp))
           else None))"

text \<open>An exponent after the letter: an optional sign and a digit part.\<close>

definition parse_exponent :: "string \<Rightarrow> int option" where
  "parse_exponent s =
     (case s of
        [] \<Rightarrow> None
      | c # cs \<Rightarrow>
          (if c = CHR ''+'' then (if digitpart cs then Some (int_of_digits cs) else None)
           else if c = CHR ''-''
             then (if digitpart cs then Some (- int_of_digits cs) else None)
           else if digitpart s then Some (int_of_digits s) else None))"

definition parse_floatnumber :: "string \<Rightarrow> real option" where
  "parse_floatnumber s =
     (case split_at (\<lambda>c. c = CHR ''e'' \<or> c = CHR ''E'') s of
        (m, None) \<Rightarrow> parse_number m
      | (m, Some ex) \<Rightarrow>
          (case (parse_number m, parse_exponent ex) of
             (Some x, Some k) \<Rightarrow>
               Some (if 0 \<le> k then x * 10 ^ nat k else x / 10 ^ nat (- k))
           | _ \<Rightarrow> None))"

text \<open>An unsigned float value: an infinity, NaN (in any letter case) or a number.\<close>

definition parse_abs :: "string \<Rightarrow> pyfloat option" where
  "parse_abs s =
     (let l = lower s
      in if l = ''inf'' \<or> l = ''infinity'' then Some PInf
         else if l = ''nan'' then Some NaN
         else map_option Fin (parse_floatnumber s))"

fun negate :: "pyfloat \<Rightarrow> pyfloat" where
  "negate (Fin x) = Fin (- x)"
| "negate PInf = NInf"
| "negate NInf = PInf"
| "negate NaN = NaN"

text \<open>
  \<^verbatim>\<open>float(s)\<close> on text without whitespace (the cleaning has removed it before the call);
  \<open>None\<close> is the \<^verbatim>\<open>ValueError\<close> that \<^verbatim>\<open>clean_value\<close> catches.
\<close>

definition py_float :: "string \<Rightarrow> pyfloat option" where
  "py_float s =
     (case s of
        [] \<Rightarrow> None
      | c # cs \<Rightarrow>
          (if c = CHR ''-'' then map_option negate (parse_abs cs)
           else if c = CHR ''+'' then parse_abs cs
           else parse_abs s))"

text \<open>
  The characters of the regular-expression class \<^verbatim>\<open>\s\<close> among the code points below
  256, and the class that \<^verbatim>\<open>re.sub\<close> removes: dollar, pound (163), yen (165), comma and
  whitespace.  The euro sign is a code point above 255; text that contains it is outside
  the model.
\<close>

definition is_space :: "char \<Rightarrow> bool" where
  "is_space c =
     (let n = (of_char c :: int)
      in (9 \<le> n \<and> n \<le> 13) \<or> (28 \<le> n \<and> n \<le> 32) \<or> n = 133 \<or> n = 160)"

definition is_stripped :: "char \<Rightarrow> bool" where
  "is_stripped c =
     (c = CHR ''$'' \<or> c = CHR 0xA3 \<or> c = CHR 0xA5 \<or> c = CHR '','' \<or> is_space c)"

text \<open>The text that \<^verbatim>\<open>clean_value\<close> hands to \<^verbatim>\<open>float\<close>.\<close>

definition prepared :: "string \<Rightarrow> string" where
  "prepared s =
     (let val_str = filter (\<lambda>c. \<not> is_stripped c) s
      in if CHR ''('' \<in> set val_str \<and> CHR '')'' \<in> set val_str
         then CHR ''-'' # filter (\<lambda>c. c \<noteq> CHR ''('' \<and> c \<noteq> CHR '')'') val_str
         else val_str)"

text \<open>\<^verbatim>\<open>clean_value\<close> of \<^verbatim>\<open>_clean_numeric_column\<close>; \<open>None\<close> is the null result.\<close>

definition clean_value :: "cell_value \<Rightarrow> pyfloat option" where
  "clean_value val =
     (case val of
        Null \<Rightarrow> None
      | Number x \<Rightarrow> Some (Fin x)
      | Text s \<Rightarrow> py_float (prepared s))"

text \<open>The characters that can occur in a text accepted by \<^verbatim>\<open>float\<close>.\<close>

definition is_float_char :: "char \<Rightarrow> bool" where
  "is_float_char c =
     (is_digit c \<or> c \<in> set ''_.+-eE'' \<or> lower_char c \<in> set ''infatyn'')"

section \<open>Properties\<close>

subsection \<open>Runway\<close>




subsection \<open>Waterfall\<close>











lemma driver_index_of [simp]: "driver_index (driver_of s p1 p2 ir) = fst ir"
  by (cases ir) (simp add: driver_of_def Let_def)

lemma impact_of_one [simp]: "impact (driver_of 1 p1 p2 ir) = movement (driver_of 1 p1 p2 ir)"
  by (cases ir) (simp add: driver_of_def Let_def)

























text \<open>
  C3, as stated, fails: an unsupported derived-metric name raises Python's
  \<open>ValueError\<close>, which is none of the three error types of the specification.
\<close>

theorem unknown_metric_counterexample:
  "case calculate_derived_metric scenario_frame ''ebitda'' [''2024-01''] [''2024-02''] 5 of
     Inl e \<Rightarrow> e = ValueError ''Unknown derived metric: ebitda''
             \<and> error_type_name e \<notin> set spec_error_types
   | Inr w \<Rightarrow> False"
  by (simp add: calculate_derived_metric_def spec_error_types_def)

text \<open>
  C3, amended: requesting a derived-metric name other than \<open>gross_profit\<close>,
  \<open>operating_profit\<close> and \<open>net_profit\<close> from the waterfall engine raises a
  \<open>ValueError\<close> whose message is \<open>Unknown derived metric:\<close> followed by the name;
  the error is not one of the three types of the specification.
\<close>

theorem unknown_metric_is_value_error:
  assumes "metric \<noteq> ''gross_profit''" and "metric \<noteq> ''operating_profit''"
    and "metric \<noteq> ''net_profit''"
  shows "calculate_derived_metric frame metric p1 p2 n
           = Inl (ValueError (''Unknown derived metric: '' @ metric))
       \<and> error_type_name (ValueError (''Unknown derived metric: '' @ metric))
           \<notin> set spec_error_types"
  using assms by (simp add: calculate_derived_metric_def spec_error_types_def)

theorem unknown_metric_is_value_error_witness:
  "''revenue_growth'' \<noteq> ''gross_profit'' \<and> ''revenue_growth'' \<noteq> ''operating_profit''
   \<and> ''revenue_growth'' \<noteq> ''net_profit''
   \<and> calculate_derived_metric scenario_frame ''revenue_growth'' [''2024-01''] [''2024-02''] 3
       = Inl (ValueError ''Unknown derived metric: revenue_growth'')"
proof -
  have a: "''revenue_growth'' \<noteq> ''gross_profit''"
    and b: "''revenue_growth'' \<noteq> ''operating_profit''"
    and c: "''revenue_growth'' \<noteq> ''net_profit''"
    by simp_all
  from unknown_metric_is_value_error [OF a b c, of scenario_frame "[''2024-01'']" "[''2024-02'']" 3]
  show ?thesis using a b c by simp
qed



subsection \<open>Period aggregates\<close>

lemma row_step_pair:
  "row_step period r (a, b) =
     (a + (if is_revenue_account (lower (account_str r))
           then (case cell r period of None \<Rightarrow> 0 | Some v \<Rightarrow> \<bar>v\<bar>) else 0),
      b + (if is_expense_account (lower (account_str r))
              \<and> \<not> is_revenue_account (lower (account_str r))
           then (case cell r period of None \<Rightarrow> 0 | Some v \<Rightarrow> \<bar>v\<bar>) else 0))"
  by (cases "cell r period") (simp_all add: row_step_def Let_def)

lemma fold_row_step:
  "fold (row_step period) rows (a, b) =
     (a + matching_total is_revenue_account rows period,
      b + matching_total (\<lambda>n. is_expense_account n \<and> \<not> is_revenue_account n) rows period)"
proof (induction rows arbitrary: a b)
  case Nil
  then show ?case by (simp add: matching_total_def)
next
  case (Cons r rows)
  have "fold (row_step period) (r # rows) (a, b)
        = fold (row_step period) rows (row_step period r (a, b))"
    by simp
  also have "\<dots> = (a + matching_total is_revenue_account (r # rows) period,
      b + matching_total (\<lambda>n. is_expense_account n \<and> \<not> is_revenue_account n) (r # rows) period)"
    unfolding row_step_pair Cons.IH by (simp add: matching_total_def)
  finally show ?case .
qed

lemma period_step_revenue:
  "map_of (revenue_by_period (period_step rows c agg)) p =
     (if p = c then Some (matching_total is_revenue_account rows c)
      else map_of (revenue_by_period agg) p)"
  by (simp add: period_step_def fold_row_step update_conv')

lemma period_step_expenses:
  "map_of (expenses_by_period (period_step rows c agg)) p =
     (if p = c
      then Some (matching_total (\<lambda>n. is_expense_account n \<and> \<not> is_revenue_account n) rows c)
      else map_of (expenses_by_period agg) p)"
  by (simp add: period_step_def fold_row_step update_conv')

lemma period_step_net_income:
  "map_of (net_income_by_period (period_step rows c agg)) p =
     (if p = c
      then Some (matching_total is_revenue_account rows c
                 - matching_total (\<lambda>n. is_expense_account n \<and> \<not> is_revenue_account n) rows c)
      else map_of (net_income_by_period agg) p)"
  by (simp add: period_step_def fold_row_step update_conv')

lemma fold_period_step_revenue:
  "map_of (revenue_by_period (fold (period_step rows) cols agg)) p =
     (if p \<in> set cols then Some (matching_total is_revenue_account rows p)
      else map_of (revenue_by_period agg) p)"
  by (induction cols arbitrary: agg) (simp_all add: period_step_revenue)

lemma fold_period_step_expenses:
  "map_of (expenses_by_period (fold (period_step rows) cols agg)) p =
     (if p \<in> set cols
      then Some (matching_total (\<lambda>n. is_expense_account n \<and> \<not> is_revenue_account n) rows p)
      else map_of (expenses_by_period agg) p)"
  by (induction cols arbitrary: agg) (simp_all add: period_step_expenses)

lemma fold_period_step_net_income:
  "map_of (net_income_by_period (fold (period_step rows) cols agg)) p =
     (if p \<in> set cols
      then Some (matching_total is_revenue_account rows p
                 - matching_total (\<lambda>n. is_expense_account n \<and> \<not> is_revenue_account n) rows p)
      else map_of (net_income_by_period agg) p)"
  by (induction cols arbitrary: agg) (simp_all add: period_step_net_income)

text \<open>
  C7, as stated, fails on a row named Interest Income: the name passes both keyword
  tests, the row's 100 goes to the revenue total only, and the expense total of the
  period is 0 although the rows that pass the expense test sum to 100.
\<close>

theorem aggregates_both_heuristics_counterexample:
  "is_revenue_account (lower ''Interest Income'')
   \<and> is_expense_account (lower ''Interest Income'')
   \<and> calculate_aggregates interest_calculator =
       Some \<lparr>revenue_by_period = [(''2024-01'', 100)],
             expenses_by_period = [(''2024-01'', 0)],
             net_income_by_period = [(''2024-01'', 100)],
             periods = [''2024-01'']\<rparr>
   \<and> matching_total is_expense_account (df interest_calculator) ''2024-01'' = 100"
  by code_simp

text \<open>
  C7, amended: for each period column, the revenue total is the sum of the absolute
  values of the non-null cells of every row whose name passes the revenue test; the
  expense total is the same sum over the rows whose name passes the expense test and
  does not pass the revenue test (a row that passes both counts as revenue only); a row
  that passes neither is in neither sum; net income is the revenue total minus the
  expense total.
\<close>

theorem aggregates_totals:
  assumes "calculate_aggregates c = Some a" and "p \<in> set (value_columns c)"
  shows "map_of (revenue_by_period a) p
           = Some (matching_total is_revenue_account (df c) p)
       \<and> map_of (expenses_by_period a) p
           = Some (matching_total (\<lambda>n. is_expense_account n \<and> \<not> is_revenue_account n) (df c) p)
       \<and> map_of (net_income_by_period a) p
           = Some (matching_total is_revenue_account (df c) p
                   - matching_total (\<lambda>n. is_expense_account n \<and> \<not> is_revenue_account n)
                       (df c) p)"
proof -
  from assms(1) have a: "a = fold (period_step (df c)) (value_columns c)
                   \<lparr>revenue_by_period = [], expenses_by_period = [],
                    net_income_by_period = [], periods = sort (value_columns c)\<rparr>"
    by (simp add: calculate_aggregates_def split: if_splits)
  show ?thesis
    unfolding a
    by (simp add: fold_period_step_revenue fold_period_step_expenses
          fold_period_step_net_income assms(2))
qed

theorem aggregates_totals_witness:
  "\<exists>a. calculate_aggregates month_name_calculator = Some a
      \<and> ''Feb 2024'' \<in> set (value_columns month_name_calculator)
      \<and> map_of (revenue_by_period a) ''Feb 2024'' = Some 50
      \<and> map_of (expenses_by_period a) ''Feb 2024'' = Some 200
      \<and> map_of (net_income_by_period a) ''Feb 2024'' = Some (- 150)"
proof -
  obtain a where run: "calculate_aggregates month_name_calculator = Some a"
    by (simp add: calculate_aggregates_def month_name_calculator_def)
  have col: "''Feb 2024'' \<in> set (value_columns month_name_calculator)"
    by (simp add: month_name_calculator_def)
  have r: "matching_total is_revenue_account (df month_name_calculator) ''Feb 2024'' = 50"
    by code_simp
  have e: "matching_total (\<lambda>n. is_expense_account n \<and> \<not> is_revenue_account n)
             (df month_name_calculator) ''Feb 2024'' = 200"
    by code_simp
  from aggregates_totals [OF run col] r e run col show ?thesis by simp
qed

subsection \<open>Expense drivers\<close>




subsection \<open>Period order\<close>

text \<open>
  C6 at a statement whose columns are headed Jan 2024 and Feb 2024, in that order: the
  aggregates are keyed by column, but the net burn and growth values, computed in column
  order, are zipped with the sorted headers (Feb 2024 before Jan 2024).  The net burn
  of January (100 - 10 = 90) is stored under Feb 2024, that of February (200 - 50 = 150)
  under Jan 2024, and the growth from January to February under Jan 2024.
\<close>

theorem period_keys_mispaired:
  "map_option expenses_by_period (calculate_aggregates month_name_calculator)
     = Some [(''Jan 2024'', 100), (''Feb 2024'', 200)]
   \<and> map_option revenue_by_period (calculate_aggregates month_name_calculator)
     = Some [(''Jan 2024'', 10), (''Feb 2024'', 50)]
   \<and> map_option periods (calculate_aggregates month_name_calculator)
     = Some [''Feb 2024'', ''Jan 2024'']
   \<and> map_option net_burn_by_period
       (calculate_burn_rate (calculate_aggregates month_name_calculator))
     = Some [(''Feb 2024'', 90), (''Jan 2024'', 150)]
   \<and> map_option gross_burn_by_period
       (calculate_burn_rate (calculate_aggregates month_name_calculator))
     = Some [(''Jan 2024'', 100), (''Feb 2024'', 200)]
   \<and> map_option mom_growth_by_period
       (calculate_growth_metrics (calculate_aggregates month_name_calculator))
     = Some [(''Jan 2024'', 400)]"
  by code_simp

subsection \<open>Reproducibility and the clock\<close>

lemma calculate_runway_clock:
  assumes "calculate_runway t1 c b = Inr r1" and "calculate_runway t2 c b = Inr r2"
  shows "r1\<lparr>zero_cash_date := None\<rparr> = r2\<lparr>zero_cash_date := None\<rparr>"
  using assms
  by (auto simp: calculate_runway_def Let_def split: if_splits sum.splits)

lemma runway_insights_months:
  assumes "months_remaining r1 = months_remaining r2"
  shows "runway_insights (Some r1) = runway_insights (Some r2)"
  using assms by (simp add: runway_insights_def Let_def)

text \<open>
  C5, as stated, fails: the runway record holds the projected zero-cash date, which is
  counted from the date of the run.  The same statement with the same cash balance of 720
  (six months at an average net burn of 120) gives 2024-07-31 when run on 2024-01-31 and
  2024-08-29 when run on 2024-02-29.
\<close>

theorem metrics_clock_counterexample:
  "(case calculate_all_metrics \<lparr>year = 2024, month = 1, day = 31\<rparr> month_name_calculator
           (Some 720) of
      Inl e \<Rightarrow> False
    | Inr m \<Rightarrow> map_option zero_cash_date (runway m)
                 = Some (Some \<lparr>year = 2024, month = 7, day = 31\<rparr>))
   \<and> (case calculate_all_metrics \<lparr>year = 2024, month = 2, day = 29\<rparr> month_name_calculator
           (Some 720) of
      Inl e \<Rightarrow> False
    | Inr m \<Rightarrow> map_option zero_cash_date (runway m)
                 = Some (Some \<lparr>year = 2024, month = 8, day = 29\<rparr>))
   \<and> calculate_all_metrics \<lparr>year = 2024, month = 1, day = 31\<rparr> month_name_calculator (Some 720)
       \<noteq> calculate_all_metrics \<lparr>year = 2024, month = 2, day = 29\<rparr> month_name_calculator
           (Some 720)"
proof -
  have a: "case calculate_all_metrics \<lparr>year = 2024, month = 1, day = 31\<rparr> month_name_calculator
           (Some 720) of
      Inl e \<Rightarrow> False
    | Inr m \<Rightarrow> map_option zero_cash_date (runway m)
                 = Some (Some \<lparr>year = 2024, month = 7, day = 31\<rparr>)"
    by code_simp
  have b: "case calculate_all_metrics \<lparr>year = 2024, month = 2, day = 29\<rparr> month_name_calculator
           (Some 720) of
      Inl e \<Rightarrow> False
    | Inr m \<Rightarrow> map_option zero_cash_date (runway m)
                 = Some (Some \<lparr>year = 2024, month = 8, day = 29\<rparr>)"
    by code_simp
  from a b have "calculate_all_metrics \<lparr>year = 2024, month = 1, day = 31\<rparr> month_name_calculator
         (Some 720)
       \<noteq> calculate_all_metrics \<lparr>year = 2024, month = 2, day = 29\<rparr> month_name_calculator
           (Some 720)"
    by (auto split: sum.splits)
  with a b show ?thesis by blast
qed

text \<open>
  C5, amended: two runs of the metrics pipeline on identical input (same table, same
  optional cash balance) that read the same date from the clock produce identical
  outputs; two runs that read different dates and both produce a result agree on every
  output except the \<open>zero_cash_date\<close> field of the runway record.
\<close>

theorem metrics_reproducible_up_to_date:
  assumes "calculate_all_metrics t1 c cash = Inr m1"
    and "calculate_all_metrics t2 c cash = Inr m2"
  shows "without_zero_cash_date m1 = without_zero_cash_date m2
       \<and> (t1 = t2 \<longrightarrow> m1 = m2)"
proof -
  have same: "m1 = m2" if "t1 = t2" using that assms by simp
  define aggs where "aggs = calculate_aggregates c"
  define b where "b = calculate_burn_rate aggs"
  define g where "g = calculate_growth_metrics aggs"
  define d where "d = identify_expense_drivers c"
  define e where "e = (case aggs of
                         None \<Rightarrow> None
                       | Some a \<Rightarrow>
                           (if revenue_by_period a \<noteq> []
                            then Some (calculate_cash_efficiency a b) else None))"
  define rw where "rw = (\<lambda>today. case (cash, b) of
                  (Some cb, Some bm) \<Rightarrow>
                    (if net_burn_avg bm \<noteq> 0
                     then map_sum id Some (calculate_runway today cb (net_burn_avg bm))
                     else Inr None)
                | _ \<Rightarrow> Inr None)"
  have run: "calculate_all_metrics today c cash =
      (case rw today of
         Inl err \<Rightarrow> Inl err
       | Inr rwo \<Rightarrow> Inr \<lparr>aggregates = aggs, burn_rate = b, runway = rwo, growth = g,
                      expense_drivers = d, efficiency = e,
                      insights = generate_key_insights rwo b g e\<rparr>)" for today
    by (simp add: calculate_all_metrics_def Let_def aggs_def b_def g_def d_def e_def rw_def
          split: sum.splits option.splits)
  from assms(1) obtain rw1 where rw1: "rw t1 = Inr rw1"
    and m1: "m1 = \<lparr>aggregates = aggs, burn_rate = b, runway = rw1, growth = g,
                   expense_drivers = d, efficiency = e,
                   insights = generate_key_insights rw1 b g e\<rparr>"
    unfolding run by (auto split: sum.splits)
  from assms(2) obtain rw2 where rw2: "rw t2 = Inr rw2"
    and m2: "m2 = \<lparr>aggregates = aggs, burn_rate = b, runway = rw2, growth = g,
                   expense_drivers = d, efficiency = e,
                   insights = generate_key_insights rw2 b g e\<rparr>"
    unfolding run by (auto split: sum.splits)
  have rel: "(rw1 = None \<and> rw2 = None)
           \<or> (\<exists>r1 r2. rw1 = Some r1 \<and> rw2 = Some r2
                \<and> r1\<lparr>zero_cash_date := None\<rparr> = r2\<lparr>zero_cash_date := None\<rparr>)"
    using rw1 rw2 unfolding rw_def
    by (auto split: option.splits if_splits sum.splits
          simp: map_sum_def dest: calculate_runway_clock)
  from rel have "without_zero_cash_date m1 = without_zero_cash_date m2"
  proof
    assume "rw1 = None \<and> rw2 = None"
    then show ?thesis by (simp add: m1 m2)
  next
    assume "\<exists>r1 r2. rw1 = Some r1 \<and> rw2 = Some r2
                \<and> r1\<lparr>zero_cash_date := None\<rparr> = r2\<lparr>zero_cash_date := None\<rparr>"
    then obtain r1 r2 where s: "rw1 = Some r1" "rw2 = Some r2"
      and eq: "r1\<lparr>zero_cash_date := None\<rparr> = r2\<lparr>zero_cash_date := None\<rparr>"
      by blast
    from eq have "months_remaining (r1\<lparr>zero_cash_date := None\<rparr>)
                  = months_remaining (r2\<lparr>zero_cash_date := None\<rparr>)"
      by (rule arg_cong)
    then have "months_remaining r1 = months_remaining r2" by simp
    then have "runway_insights (Some r1) = runway_insights (Some r2)"
      by (rule runway_insights_months)
    then have "generate_key_insights rw1 b g e = generate_key_insights rw2 b g e"
      by (simp add: generate_key_insights_def s)
    then show ?thesis
      by (simp add: m1 m2 without_zero_cash_date_def s eq)
  qed
  with same show ?thesis by blast
qed

theorem metrics_reproducible_up_to_date_witness:
  "\<exists>m1 m2.
      calculate_all_metrics \<lparr>year = 2024, month = 1, day = 31\<rparr> month_name_calculator (Some 720)
        = Inr m1
    \<and> calculate_all_metrics \<lparr>year = 2024, month = 2, day = 29\<rparr> month_name_calculator (Some 720)
        = Inr m2
    \<and> without_zero_cash_date m1 = without_zero_cash_date m2"
proof -
  have "case calculate_all_metrics \<lparr>year = 2024, month = 1, day = 31\<rparr> month_name_calculator
           (Some 720) of Inl e \<Rightarrow> False | Inr m \<Rightarrow> True"
    by code_simp
  then obtain m1 where 1:
    "calculate_all_metrics \<lparr>year = 2024, month = 1, day = 31\<rparr> month_name_calculator (Some 720)
      = Inr m1"
    by (auto split: sum.splits)
  have "case calculate_all_metrics \<lparr>year = 2024, month = 2, day = 29\<rparr> month_name_calculator
           (Some 720) of Inl e \<Rightarrow> False | Inr m \<Rightarrow> True"
    by code_simp
  then obtain m2 where 2:
    "calculate_all_metrics \<lparr>year = 2024, month = 2, day = 29\<rparr> month_name_calculator (Some 720)
      = Inr m2"
    by (auto split: sum.splits)
  from metrics_reproducible_up_to_date [OF 1 2] 1 2 show ?thesis by blast
qed

subsection \<open>Account categories\<close>

















subsection \<open>Numeric normalization\<close>

lemma digitpart_chars: "digitpart s \<Longrightarrow> c \<in> set s \<Longrightarrow> is_digit c \<or> c = CHR ''_''"
  by (induction s rule: digitpart.induct) (auto split: if_splits)

lemma split_at_chars:
  assumes "split_at P s = (a, b)"
  shows "set a \<subseteq> set s" and "\<And>r. b = Some r \<Longrightarrow> set s \<subseteq> set a \<union> set r \<union> {c. P c}"
proof -
  show "set a \<subseteq> set s"
    using assms set_takeWhileD [of _ "\<lambda>c. \<not> P c" s]
    by (auto simp: split_at_def split: list.splits)
  show "set s \<subseteq> set a \<union> set r \<union> {c. P c}" if "b = Some r" for r
  proof -
    from assms that obtain c where d: "dropWhile (\<lambda>c. \<not> P c) s = c # r"
      and a: "a = takeWhile (\<lambda>c. \<not> P c) s"
      by (auto simp: split_at_def split: list.splits)
    have "P c" using d by (metis hd_dropWhile list.distinct(1) list.sel(1))
    moreover have "s = a @ c # r" using a d by (metis takeWhile_dropWhile_id)
    ultimately show ?thesis by auto
  qed
qed

lemma parse_number_chars:
  assumes "parse_number s = Some x" and "c \<in> set s"
  shows "is_float_char c"
proof -
  obtain ip fo where sp: "split_at (\<lambda>c. c = CHR ''.'') s = (ip, fo)"
    by (cases "split_at (\<lambda>c. c = CHR ''.'') s")
  show ?thesis
  proof (cases fo)
    case None
    then have "ip = s" using sp by (auto simp: split_at_def split: list.splits)
    with assms sp None have "digitpart s"
      by (auto simp: parse_number_def split: if_splits)
    from digitpart_chars [OF this assms(2)] show ?thesis by (auto simp: is_float_char_def)
  next
    case (Some fp)
    from split_at_chars(2) [OF sp Some] assms(2)
    have c: "c \<in> set ip \<or> c \<in> set fp \<or> c = CHR ''.''" by auto
    from assms(1) sp Some have ok: "(ip = [] \<or> digitpart ip) \<and> (fp = [] \<or> digitpart fp)"
      by (auto simp: parse_number_def split: if_splits)
    from c ok digitpart_chars show ?thesis
      by (auto simp: is_float_char_def)
  qed
qed

lemma parse_exponent_chars:
  assumes "parse_exponent s = Some k" and "c \<in> set s"
  shows "is_float_char c"
proof (cases s)
  case Nil
  with assms show ?thesis by simp
next
  case (Cons a as)
  consider (signed) "a = CHR ''+'' \<or> a = CHR ''-''" "digitpart as" | (plain) "digitpart s"
    using assms(1) Cons by (auto simp: parse_exponent_def split: if_splits)
  then show ?thesis
  proof cases
    case signed
    from assms(2) Cons have "c = a \<or> c \<in> set as" by simp
    then show ?thesis
    proof
      assume "c = a"
      with signed(1) show ?thesis by (auto simp: is_float_char_def)
    next
      assume "c \<in> set as"
      from digitpart_chars [OF signed(2) this] show ?thesis
        by (auto simp: is_float_char_def)
    qed
  next
    case plain
    from digitpart_chars [OF plain assms(2)] show ?thesis
      by (auto simp: is_float_char_def)
  qed
qed

lemma parse_floatnumber_chars:
  assumes "parse_floatnumber s = Some x" and "c \<in> set s"
  shows "is_float_char c"
proof -
  obtain m eo where sp: "split_at (\<lambda>c. c = CHR ''e'' \<or> c = CHR ''E'') s = (m, eo)"
    by (cases "split_at (\<lambda>c. c = CHR ''e'' \<or> c = CHR ''E'') s")
  show ?thesis
  proof (cases eo)
    case None
    then have "m = s" using sp by (auto simp: split_at_def split: list.splits)
    with assms sp None show ?thesis
      by (auto simp: parse_floatnumber_def dest: parse_number_chars)
  next
    case (Some ex)
    from split_at_chars(2) [OF sp Some] assms(2)
    have c: "c \<in> set m \<or> c \<in> set ex \<or> c = CHR ''e'' \<or> c = CHR ''E''" by auto
    from assms(1) sp Some obtain y k where "parse_number m = Some y" "parse_exponent ex = Some k"
      by (auto simp: parse_floatnumber_def split: option.splits)
    with c show ?thesis
      by (auto dest: parse_number_chars parse_exponent_chars simp: is_float_char_def)
  qed
qed

lemma parse_abs_chars:
  assumes "parse_abs s = Some v" and "c \<in> set s"
  shows "is_float_char c"
proof -
  have l: "lower_char c \<in> set (lower s)" using assms(2) by (simp add: lower_def)
  consider (inf) "lower s = ''inf'' \<or> lower s = ''infinity'' \<or> lower s = ''nan''"
    | (num) x where "parse_floatnumber s = Some x"
    using assms(1) by (auto simp: parse_abs_def Let_def split: if_splits)
  then show ?thesis
  proof cases
    case inf
    with l have "lower_char c \<in> set ''infatyn''" by auto
    then show ?thesis by (simp add: is_float_char_def)
  next
    case num
    from parse_floatnumber_chars [OF num assms(2)] show ?thesis .
  qed
qed

lemma py_float_chars:
  assumes "py_float s = Some v" and "c \<in> set s"
  shows "is_float_char c"
proof (cases s)
  case Nil
  with assms show ?thesis by simp
next
  case (Cons a as)
  with assms show ?thesis
    by (auto simp: py_float_def is_float_char_def split: if_splits dest: parse_abs_chars)
qed

lemma parse_abs_Nil: "parse_abs [] = None"
  by code_simp

lemma paren_not_stripped: "\<not> is_stripped CHR ''('' \<and> \<not> is_stripped CHR '')''"
  by code_simp

lemma prepared_plain:
  assumes "\<forall>c \<in> set s. \<not> is_stripped c \<and> c \<noteq> CHR ''('' \<and> c \<noteq> CHR '')''"
  shows "prepared s = s" and "prepared (''('' @ s @ '')'') = CHR ''-'' # s"
proof -
  have f: "filter (\<lambda>c. \<not> is_stripped c) s = s"
    using assms by (simp add: filter_id_conv)
  have g: "filter (\<lambda>c. c \<noteq> CHR ''('' \<and> c \<noteq> CHR '')'') s = s"
    using assms by (simp add: filter_id_conv)
  show "prepared s = s"
    using assms by (auto simp: prepared_def Let_def f)
  show "prepared (''('' @ s @ '')'') = CHR ''-'' # s"
    using paren_not_stripped by (simp add: prepared_def Let_def f g)
qed

lemma filter_stripped_idem:
  "prepared (filter (\<lambda>c. \<not> is_stripped c) s) = prepared s"
  by (simp add: prepared_def)

text \<open>
  C8: numeric normalization maps \<open>$1,234.56\<close> to 1234.56 and \<open>(500)\<close> to -500;
  currency symbols, thousands separators and whitespace do not change the result; an
  unsigned value wrapped in parentheses becomes its negation; a text that \<^verbatim>\<open>float\<close>
  rejects after the cleaning, in particular any text that keeps a character which cannot
  occur in a float, yields null, never 0 or another default; a null cell stays null.
\<close>

theorem numeric_normalization:
  "clean_value (Text ''$1,234.56'') = Some (Fin (123456 / 100))
   \<and> clean_value (Text ''(500)'') = Some (Fin (- 500))
   \<and> clean_value (Text (filter (\<lambda>c. \<not> is_stripped c) s)) = clean_value (Text s)
   \<and> ((\<forall>c \<in> set t. \<not> is_stripped c \<and> c \<noteq> CHR ''('' \<and> c \<noteq> CHR '')'')
        \<and> (case t of [] \<Rightarrow> True | c # cs \<Rightarrow> c \<noteq> CHR ''+'' \<and> c \<noteq> CHR ''-'')
       \<longrightarrow> clean_value (Text (''('' @ t @ '')'')) = map_option negate (clean_value (Text t)))
   \<and> (py_float (prepared u) = None \<longrightarrow> clean_value (Text u) = None)
   \<and> ((\<exists>c \<in> set (prepared u). \<not> is_float_char c) \<longrightarrow> clean_value (Text u) = None)
   \<and> clean_value Null = None"
proof -
  have 1: "clean_value (Text ''$1,234.56'') = Some (Fin (123456 / 100))" by code_simp
  have 2: "clean_value (Text ''(500)'') = Some (Fin (- 500))" by code_simp
  have 3: "clean_value (Text (filter (\<lambda>c. \<not> is_stripped c) s)) = clean_value (Text s)"
    by (simp add: clean_value_def filter_stripped_idem)
  have 4: "clean_value (Text (''('' @ t @ '')'')) = map_option negate (clean_value (Text t))"
    if p: "\<forall>c \<in> set t. \<not> is_stripped c \<and> c \<noteq> CHR ''('' \<and> c \<noteq> CHR '')''"
      and h: "case t of [] \<Rightarrow> True | c # cs \<Rightarrow> c \<noteq> CHR ''+'' \<and> c \<noteq> CHR ''-''"
  proof -
    have a: "clean_value (Text (''('' @ t @ '')'')) = map_option negate (parse_abs t)"
      unfolding clean_value_def cell_value.case prepared_plain(2) [OF p]
      by (simp add: py_float_def)
    have b: "clean_value (Text t) = parse_abs t"
      unfolding clean_value_def cell_value.case prepared_plain(1) [OF p]
      using h by (cases t) (simp_all add: py_float_def parse_abs_Nil)
    show ?thesis by (simp only: a b)
  qed
  have 5: "clean_value (Text u) = None" if "py_float (prepared u) = None"
    using that by (simp add: clean_value_def)
  have 6: "clean_value (Text u) = None" if "\<exists>c \<in> set (prepared u). \<not> is_float_char c"
  proof (cases "py_float (prepared u)")
    case None
    then show ?thesis by (rule 5)
  next
    case (Some v)
    with that py_float_chars show ?thesis by blast
  qed
  have 7: "clean_value Null = None" by (simp add: clean_value_def)
  from 1 2 3 4 5 6 7 show ?thesis by blast
qed

theorem numeric_normalization_witness:
  "clean_value (Text ''( 1,250.75 )'') = Some (Fin (- (125075 / 100)))
   \<and> clean_value (Text ''1250.75'') = Some (Fin (125075 / 100))
   \<and> clean_value (Text ''n/a'') = None
   \<and> clean_value (Text ''12 units'') = None"
proof -
  let ?t = "''1250.75''"
  have p: "\<forall>c \<in> set ?t. \<not> is_stripped c \<and> c \<noteq> CHR ''('' \<and> c \<noteq> CHR '')''" by code_simp
  have h: "case ?t of [] \<Rightarrow> True | c # cs \<Rightarrow> c \<noteq> CHR ''+'' \<and> c \<noteq> CHR ''-''" by simp
  have v: "clean_value (Text ?t) = Some (Fin (125075 / 100))" by code_simp
  have f: "filter (\<lambda>c. \<not> is_stripped c) ''( 1,250.75 )'' = ''('' @ ?t @ '')''" by code_simp
  have n1: "\<exists>c \<in> set (prepared ''n/a''). \<not> is_float_char c" by code_simp
  have n2: "\<exists>c \<in> set (prepared ''12 units''). \<not> is_float_char c" by code_simp
  note T = numeric_normalization [of "''( 1,250.75 )''" ?t "''n/a''"]
  note U = numeric_normalization [of "''( 1,250.75 )''" ?t "''12 units''"]
  note T3 = T [THEN conjunct2, THEN conjunct2, THEN conjunct1]
  note T4 = T [THEN conjunct2, THEN conjunct2, THEN conjunct2, THEN conjunct1]
  from T4 p h
  have "clean_value (Text (''('' @ ?t @ '')'')) = map_option negate (clean_value (Text ?t))"
    by blast
  then have "clean_value (Text (''('' @ ?t @ '')'')) = Some (Fin (- (125075 / 100)))"
    by (simp only: v option.map negate.simps)
  with T3 have a: "clean_value (Text ''( 1,250.75 )'') = Some (Fin (- (125075 / 100)))"
    by (simp only: f)
  from T n1 have b: "clean_value (Text ''n/a'') = None" by blast
  from U n2 have c: "clean_value (Text ''12 units'') = None" by blast
  from a v b c show ?thesis by (simp only: simp_thms)
qed

end
